theory Spec2Isabelle
  imports Main "HOL-Library.Sublist"
begin

section \<open>The CalDAV service facade (src/services/caldavService.js)\<close>

text \<open>
  The module keeps one private variable, \<^verbatim>\<open>client\<close>, and thirteen exported functions that
  call into \<^verbatim>\<open>cdav-library\<close>. Neither the library nor the server is part of the module:
  both are a parameter of the model (a record of functions), and every theorem holds for
  all of them. A promise is modelled by what \<^verbatim>\<open>await\<close> yields: \<open>Inl e\<close> when it rejects
  (or the call throws) with \<open>e\<close>, \<open>Inr v\<close> when it resolves with \<open>v\<close>.
\<close>

subsection \<open>Errors\<close>

datatype js_error =
    TypeError                \<comment> \<open>a method call on \<^verbatim>\<open>undefined\<close> or \<^verbatim>\<open>null\<close>\<close>
  | InvalidStateError        \<comment> \<open>\<^verbatim>\<open>setRequestHeader\<close> or \<^verbatim>\<open>send\<close> on a request that is not open\<close>
  | SyntaxError              \<comment> \<open>\<^verbatim>\<open>open\<close> with a method or URL the browser refuses\<close>
  | LibError string          \<comment> \<open>a rejection that comes from the library or the server\<close>

subsection \<open>The XMLHttpRequest handed to the library (lines 35-56)\<close>

datatype ready_state = UNSENT | OPENED

text \<open>
  \<open>openOverride\<close> is the own property \<^verbatim>\<open>xhr.open\<close>: \<open>None\<close> while the request uses
  the browser's \<^verbatim>\<open>open\<close>, \<open>Some headers\<close> once line 45 has replaced it by the function
  that closes over \<^verbatim>\<open>headers\<close>.
\<close>

record xhr =
  readyState :: ready_state
  requestHeaders :: "(string \<times> string) list"
  openOverride :: "(string \<times> string) list option"
  errorProcessing :: bool

definition XMLHttpRequest_new :: xhr where
  "XMLHttpRequest_new =
     \<lparr>readyState = UNSENT, requestHeaders = [], openOverride = None, errorProcessing = False\<rparr>"














text \<open>Lines 36-40; \<open>tok\<close> is what \<^verbatim>\<open>getRequestToken()\<close> returns when the provider runs.\<close>

definition headers :: "string \<Rightarrow> (string \<times> string) list" where
  "headers tok =
     [(''X-Requested-With'', ''XMLHttpRequest''),
      (''requesttoken'', tok),
      (''X-NC-CalDAV-Webcal-Caching'', ''On'')]"



text \<open>
  The closure of lines 35-56, the second argument of \<^verbatim>\<open>new DavClient\<close>.
  \<^verbatim>\<open>OC.registerXHRForErrorProcessing\<close> marks the request for error processing.
\<close>

definition xhrProvider :: "string \<Rightarrow> xhr" where
  "xhrProvider tok =
     XMLHttpRequest_new\<lparr>openOverride := Some (headers tok), errorProcessing := True\<rparr>"


subsection \<open>The library: DavClient and CalendarHome\<close>

text \<open>
  The three properties of a \<^verbatim>\<open>DavClient\<close> that the module reads. \<open>'v\<close> is the type of the
  objects the library hands out (calendar homes, calendars, inboxes, principals);
  \<open>None\<close> is \<^verbatim>\<open>null\<close>.
\<close>

record 'v dav_client =
  calendarHomes :: "'v list"
  publicCalendarHome :: "'v option"
  currentUserPrincipal :: "'v option"

text \<open>
  The library and the server, \<open>'w\<close> being the state of the server. A method of the client
  gets the client's properties and may change them; a method of a calendar home gets the
  home and leaves the client's properties as they are. Every method may change the server.
  \<open>CALDAV_BIRTHDAY_CALENDAR\<close> is the constant of \<^verbatim>\<open>models/consts.js\<close>.
\<close>

record ('v, 'w) library =
  generateRemoteUrl :: "string \<Rightarrow> string"
  DavClient_new :: "string \<Rightarrow> (string \<Rightarrow> xhr) \<Rightarrow> 'v dav_client"
  connect :: "bool \<Rightarrow> 'v dav_client \<Rightarrow> 'w \<Rightarrow> (js_error + unit) \<times> 'v dav_client \<times> 'w"
  createPublicCalendarHome :: "'v dav_client \<Rightarrow> 'w \<Rightarrow> (js_error + unit) \<times> 'v dav_client \<times> 'w"
  principalPropertySearchByDisplayname :: "'v dav_client \<Rightarrow> string \<Rightarrow> 'w \<Rightarrow> (js_error + 'v list) \<times> 'w"
  findPrincipal :: "'v dav_client \<Rightarrow> string \<Rightarrow> 'w \<Rightarrow> (js_error + 'v) \<times> 'w"
  home_findAllCalendars :: "'v \<Rightarrow> 'w \<Rightarrow> (js_error + 'v list) \<times> 'w"
  home_find :: "'v \<Rightarrow> string \<Rightarrow> 'w \<Rightarrow> (js_error + 'v) \<times> 'w"
  home_findAllScheduleInboxes :: "'v \<Rightarrow> 'w \<Rightarrow> (js_error + 'v list) \<times> 'w"
  home_findAllScheduleOutboxes :: "'v \<Rightarrow> 'w \<Rightarrow> (js_error + 'v list) \<times> 'w"
  home_createCalendarCollection ::
    "'v \<Rightarrow> string \<Rightarrow> string \<Rightarrow> string list \<Rightarrow> int \<Rightarrow> string \<Rightarrow> 'w \<Rightarrow> (js_error + 'v) \<times> 'w"
  home_createSubscribedCollection ::
    "'v \<Rightarrow> string \<Rightarrow> string \<Rightarrow> string \<Rightarrow> int \<Rightarrow> 'w \<Rightarrow> (js_error + 'v) \<times> 'w"
  home_enableBirthdayCalendar :: "'v \<Rightarrow> 'w \<Rightarrow> (js_error + unit) \<times> 'w"
  CALDAV_BIRTHDAY_CALENDAR :: string

subsection \<open>The state of the module\<close>

text \<open>
  The calls the module makes into the library, in the order it makes them.
  \<open>New_DavClient\<close> carries both arguments of the constructor: the root URL and the
  factory of requests, which takes the request token of the moment.
\<close>

datatype 'v lib_call =
    New_DavClient string "string \<Rightarrow> xhr"
  | Connect nat bool
  | CreatePublicCalendarHome nat
  | PrincipalPropertySearchByDisplayname nat string
  | FindPrincipal nat string
  | FindAllCalendars 'v
  | Find 'v string
  | FindAllScheduleInboxes 'v
  | FindAllScheduleOutboxes 'v
  | CreateCalendarCollection 'v string string "string list" int string
  | CreateSubscribedCollection 'v string string string int
  | EnableBirthdayCalendar 'v

text \<open>
  \<open>client\<close> is the module variable of line 27: \<open>None\<close> is \<^verbatim>\<open>null\<close>, \<open>Some a\<close> a reference
  to the \<^verbatim>\<open>DavClient\<close> object at address \<open>a\<close> of \<open>heap\<close>. \<open>calls\<close> is the log of library
  calls, \<open>server\<close> the state of the server.
\<close>

record ('v, 'w) state =
  client :: "nat option"
  heap :: "nat \<Rightarrow> 'v dav_client"
  calls :: "'v lib_call list"
  server :: 'w

fun is_New_DavClient :: "'v lib_call \<Rightarrow> bool" where
  "is_New_DavClient (New_DavClient _ _) = True"
| "is_New_DavClient _ = False"

fun is_Connect :: "'v lib_call \<Rightarrow> bool" where
  "is_Connect (Connect _ _) = True"
| "is_Connect _ = False"

text \<open>How many times \<^verbatim>\<open>new DavClient\<close> has run; also the address of the next object.\<close>

definition constructions :: "('v, 'w) state \<Rightarrow> nat" where
  "constructions s = length (filter is_New_DavClient (calls s))"

text \<open>The request factories that the constructor calls of a log were given.\<close>

fun factories :: "'v lib_call list \<Rightarrow> (string \<Rightarrow> xhr) list" where
  "factories [] = []"
| "factories (New_DavClient rootUrl factory # cs) = factory # factories cs"
| "factories (_ # cs) = factories cs"

definition initial :: "(nat \<Rightarrow> 'v dav_client) \<Rightarrow> 'w \<Rightarrow> ('v, 'w) state" where
  "initial h w = \<lparr>client = None, heap = h, calls = [], server = w\<rparr>"

subsection \<open>getClient (lines 28-59)\<close>

function getClient :: "('v, 'w) library \<Rightarrow> ('v, 'w) state \<Rightarrow> nat \<times> ('v, 'w) state" where
  "getClient L s =
     (case client s of
        Some c \<Rightarrow> (c, s)
      | None \<Rightarrow>
          getClient L
            (s\<lparr>client := Some (constructions s),
               heap := (heap s)
                 (constructions s := DavClient_new L (generateRemoteUrl L ''dav'') xhrProvider),
               calls := calls s @ [New_DavClient (generateRemoteUrl L ''dav'') xhrProvider]\<rparr>))"
  by pat_completeness auto
termination
  by (relation "measure (\<lambda>(L, s). if client s = None then 1 else 0)") auto

declare getClient.simps [simp del]

text \<open>The object that \<^verbatim>\<open>getClient()\<close> returns, as the caller finds it.\<close>

definition session :: "('v, 'w) library \<Rightarrow> ('v, 'w) state \<Rightarrow> 'v dav_client" where
  "session L s = (let (c, s1) = getClient L s in heap s1 c)"

subsection \<open>The exported functions (lines 64-216)\<close>

definition initializeClientForUserView ::
  "('v, 'w) library \<Rightarrow> ('v, 'w) state \<Rightarrow> (js_error + unit) \<times> ('v, 'w) state" where
  "initializeClientForUserView L s =
     (let (c, s1) = getClient L s;
          (r, obj, w) = connect L True (heap s1 c) (server s1)
      in (r, s1\<lparr>heap := (heap s1)(c := obj), calls := calls s1 @ [Connect c True], server := w\<rparr>))"

definition initializeClientForPublicView ::
  "('v, 'w) library \<Rightarrow> ('v, 'w) state \<Rightarrow> (js_error + unit) \<times> ('v, 'w) state" where
  "initializeClientForPublicView L s =
     (let (c, s1) = getClient L s;
          (r, obj, w) = createPublicCalendarHome L (heap s1 c) (server s1)
      in (r, s1\<lparr>heap := (heap s1)(c := obj), calls := calls s1 @ [CreatePublicCalendarHome c],
                server := w\<rparr>))"

text \<open>
  \<^verbatim>\<open>getClient().calendarHomes[0].m(...)\<close>: index 0 of an empty array is \<^verbatim>\<open>undefined\<close>, and
  the method call on it throws a TypeError before anything is sent. \<open>tag\<close> names the call
  in the log.
\<close>

definition onFirstHome ::
  "('v, 'w) library \<Rightarrow> ('v \<Rightarrow> 'v lib_call) \<Rightarrow> ('v \<Rightarrow> 'w \<Rightarrow> (js_error + 'a) \<times> 'w) \<Rightarrow>
   ('v, 'w) state \<Rightarrow> (js_error + 'a) \<times> ('v, 'w) state" where
  "onFirstHome L tag m s =
     (let (c, s1) = getClient L s in
      case calendarHomes (heap s1 c) of
        [] \<Rightarrow> (Inl TypeError, s1)
      | h # _ \<Rightarrow>
          (let (r, w) = m h (server s1)
           in (r, s1\<lparr>calls := calls s1 @ [tag h], server := w\<rparr>)))"

definition findAllCalendars ::
  "('v, 'w) library \<Rightarrow> ('v, 'w) state \<Rightarrow> (js_error + 'v list) \<times> ('v, 'w) state" where
  "findAllCalendars L s = onFirstHome L FindAllCalendars (home_findAllCalendars L) s"

text \<open>
  The loop of lines 93-99. Each promise carries \<^verbatim>\<open>.catch(() => null)\<close>, so it settles to
  \<open>None\<close> (\<^verbatim>\<open>null\<close>) when the lookup rejects. A \<^verbatim>\<open>null\<close> public calendar home makes
  \<^verbatim>\<open>.find\<close> throw, which rejects the whole call.
\<close>

fun findLoop ::
  "('v, 'w) library \<Rightarrow> string list \<Rightarrow> 'v option list \<Rightarrow> ('v, 'w) state \<Rightarrow>
   (js_error + 'v option list) \<times> ('v, 'w) state" where
  "findLoop L [] findPromises s = (Inr findPromises, s)"
| "findLoop L (token # tokens) findPromises s =
     (let (c, s1) = getClient L s in
      case publicCalendarHome (heap s1 c) of
        None \<Rightarrow> (Inl TypeError, s1)
      | Some h \<Rightarrow>
          (let (r, w) = home_find L h token (server s1);
               promise = (case r of Inl e \<Rightarrow> None | Inr calendar \<Rightarrow> Some calendar)
           in findLoop L tokens (findPromises @ [promise])
                (s1\<lparr>calls := calls s1 @ [Find h token], server := w\<rparr>)))"

text \<open>Lines 101-102: \<^verbatim>\<open>Promise.all\<close> keeps the positions, the filter drops the \<^verbatim>\<open>null\<close>s.\<close>

definition findPublicCalendarsByTokens ::
  "('v, 'w) library \<Rightarrow> string list \<Rightarrow> ('v, 'w) state \<Rightarrow>
   (js_error + 'v option list) \<times> ('v, 'w) state" where
  "findPublicCalendarsByTokens L tokens s =
     (case findLoop L tokens [] s of
        (Inl e, s') \<Rightarrow> (Inl e, s')
      | (Inr calendars, s') \<Rightarrow> (Inr (filter (\<lambda>calendar. calendar \<noteq> None) calendars), s'))"

text \<open>\<^verbatim>\<open>xs[0]\<close> of an array: \<open>None\<close> is \<^verbatim>\<open>undefined\<close>.\<close>

definition index0 :: "'a list \<Rightarrow> 'a option" where
  "index0 xs = (case xs of [] \<Rightarrow> None | x # _ \<Rightarrow> Some x)"

definition findSchedulingInbox ::
  "('v, 'w) library \<Rightarrow> ('v, 'w) state \<Rightarrow> (js_error + 'v option) \<times> ('v, 'w) state" where
  "findSchedulingInbox L s =
     (case onFirstHome L FindAllScheduleInboxes (home_findAllScheduleInboxes L) s of
        (Inl e, s') \<Rightarrow> (Inl e, s')
      | (Inr inboxes, s') \<Rightarrow> (Inr (index0 inboxes), s'))"

definition findSchedulingOutbox ::
  "('v, 'w) library \<Rightarrow> ('v, 'w) state \<Rightarrow> (js_error + 'v option) \<times> ('v, 'w) state" where
  "findSchedulingOutbox L s =
     (case onFirstHome L FindAllScheduleOutboxes (home_findAllScheduleOutboxes L) s of
        (Inl e, s') \<Rightarrow> (Inl e, s')
      | (Inr outboxes, s') \<Rightarrow> (Inr (index0 outboxes), s'))"

definition createCalendar ::
  "('v, 'w) library \<Rightarrow> string \<Rightarrow> string \<Rightarrow> string list \<Rightarrow> int \<Rightarrow> string \<Rightarrow> ('v, 'w) state \<Rightarrow>
   (js_error + 'v) \<times> ('v, 'w) state" where
  "createCalendar L displayName color components order timezoneIcs s =
     onFirstHome L
       (\<lambda>h. CreateCalendarCollection h displayName color components order timezoneIcs)
       (\<lambda>h. home_createCalendarCollection L h displayName color components order timezoneIcs) s"

definition createSubscription ::
  "('v, 'w) library \<Rightarrow> string \<Rightarrow> string \<Rightarrow> string \<Rightarrow> int \<Rightarrow> ('v, 'w) state \<Rightarrow>
   (js_error + 'v) \<times> ('v, 'w) state" where
  "createSubscription L displayName color source order s =
     onFirstHome L
       (\<lambda>h. CreateSubscribedCollection h displayName color source order)
       (\<lambda>h. home_createSubscribedCollection L h displayName color source order) s"

definition getBirthdayCalendar ::
  "('v, 'w) library \<Rightarrow> ('v, 'w) state \<Rightarrow> (js_error + 'v) \<times> ('v, 'w) state" where
  "getBirthdayCalendar L s =
     onFirstHome L
       (\<lambda>h. Find h (CALDAV_BIRTHDAY_CALENDAR L))
       (\<lambda>h. home_find L h (CALDAV_BIRTHDAY_CALENDAR L)) s"

definition enableBirthdayCalendar ::
  "('v, 'w) library \<Rightarrow> ('v, 'w) state \<Rightarrow> (js_error + 'v) \<times> ('v, 'w) state" where
  "enableBirthdayCalendar L s =
     (case onFirstHome L EnableBirthdayCalendar (home_enableBirthdayCalendar L) s of
        (Inl e, s') \<Rightarrow> (Inl e, s')
      | (Inr _, s') \<Rightarrow> getBirthdayCalendar L s')"

text \<open>A property read: it cannot throw, whatever the property holds.\<close>

definition getCurrentUserPrincipal ::
  "('v, 'w) library \<Rightarrow> ('v, 'w) state \<Rightarrow> (js_error + 'v option) \<times> ('v, 'w) state" where
  "getCurrentUserPrincipal L s =
     (let (c, s1) = getClient L s in (Inr (currentUserPrincipal (heap s1 c)), s1))"

definition findPrincipalsByDisplayName ::
  "('v, 'w) library \<Rightarrow> string \<Rightarrow> ('v, 'w) state \<Rightarrow> (js_error + 'v list) \<times> ('v, 'w) state" where
  "findPrincipalsByDisplayName L query s =
     (let (c, s1) = getClient L s;
          (r, w) = principalPropertySearchByDisplayname L (heap s1 c) query (server s1)
      in (r, s1\<lparr>calls := calls s1 @ [PrincipalPropertySearchByDisplayname c query],
                server := w\<rparr>))"

definition findPrincipalByUrl ::
  "('v, 'w) library \<Rightarrow> string \<Rightarrow> ('v, 'w) state \<Rightarrow> (js_error + 'v) \<times> ('v, 'w) state" where
  "findPrincipalByUrl L url s =
     (let (c, s1) = getClient L s;
          (r, w) = findPrincipal L (heap s1 c) url (server s1)
      in (r, s1\<lparr>calls := calls s1 @ [FindPrincipal c url], server := w\<rparr>))"

subsection \<open>Runs of the process\<close>

text \<open>
  Between two calls of \<^verbatim>\<open>getClient\<close> anything may run: library methods, callbacks, other
  modules. \<^verbatim>\<open>client\<close> is private to the module and assigned on line 33 only, so such
  code can change the objects and the server, but not the variable.
\<close>

datatype ('v, 'w) step =
    GetClient
  | Elsewhere "(nat \<Rightarrow> 'v dav_client) \<times> 'w \<Rightarrow> (nat \<Rightarrow> 'v dav_client) \<times> 'w"

fun exec :: "('v, 'w) library \<Rightarrow> ('v, 'w) step \<Rightarrow> ('v, 'w) state \<Rightarrow> nat option \<times> ('v, 'w) state" where
  "exec L GetClient s = (let (c, s1) = getClient L s in (Some c, s1))"
| "exec L (Elsewhere f) s =
     (let (h, w) = f (heap s, server s) in (None, s\<lparr>heap := h, server := w\<rparr>))"

text \<open>A run gives the references that its calls of \<^verbatim>\<open>getClient\<close> returned, and the last state.\<close>

fun run :: "('v, 'w) library \<Rightarrow> ('v, 'w) step list \<Rightarrow> ('v, 'w) state \<Rightarrow> nat list \<times> ('v, 'w) state" where
  "run L [] s = ([], s)"
| "run L (st # sts) s =
     (let (r, s1) = exec L st s;
          (rs, s2) = run L sts s1
      in (case r of None \<Rightarrow> rs | Some c \<Rightarrow> c # rs, s2))"

subsection \<open>What the server answers to a list of tokens\<close>

text \<open>
  The answers of the public calendar home \<open>h\<close> to the lookups of \<open>tokens\<close>, one after
  the other: \<open>Inr calendar\<close> for a token the server accepts, \<open>Inl e\<close> for one it rejects.
\<close>

fun resolutions :: "('v, 'w) library \<Rightarrow> 'v \<Rightarrow> string list \<Rightarrow> 'w \<Rightarrow> (js_error + 'v) list" where
  "resolutions L h [] w = []"
| "resolutions L h (token # tokens) w =
     (let (r, w') = home_find L h token w in r # resolutions L h tokens w')"

text \<open>
  Enabling the birthday calendar on the home \<open>h\<close> and then looking it up there, as the
  server sees it: the outcome, and the state of the server afterwards. A rejected request
  ends the sequence.
\<close>

definition enableThenFetch :: "('v, 'w) library \<Rightarrow> 'v \<Rightarrow> 'w \<Rightarrow> (js_error + 'v) \<times> 'w" where
  "enableThenFetch L h w =
     (case home_enableBirthdayCalendar L h w of
        (Inl e, w') \<Rightarrow> (Inl e, w')
      | (Inr _, w') \<Rightarrow> home_find L h (CALDAV_BIRTHDAY_CALENDAR L) w')"

text \<open>\<^verbatim>\<open>.catch(() => null)\<close> on one answer.\<close>

definition catchNull :: "js_error + 'v \<Rightarrow> 'v option" where
  "catchNull r = (case r of Inl e \<Rightarrow> None | Inr calendar \<Rightarrow> Some calendar)"

subsection \<open>A sample server\<close>

text \<open>
  A small server to run the model on: objects are their URLs. It publishes the calendars
  whose tokens are in \<open>published\<close>, and a search of principals matches by prefix.
\<close>

record dav_server =
  published :: "string list"
  directory :: "string list"
  scheduleInboxes :: "string list"
  birthdays :: bool

definition sample_library :: "(string, dav_server) library" where
  "sample_library =
     \<lparr>generateRemoteUrl = (\<lambda>service. ''/remote.php/'' @ service),
      DavClient_new = (\<lambda>rootUrl factory.
        \<lparr>calendarHomes = [], publicCalendarHome = None, currentUserPrincipal = None\<rparr>),
      connect = (\<lambda>enableCalDAV c w.
        (Inr (),
         c\<lparr>calendarHomes := (if enableCalDAV then [''/calendars/alice/''] else []),
           currentUserPrincipal := Some ''/principals/users/alice/''\<rparr>,
         w)),
      createPublicCalendarHome = (\<lambda>c w.
        (Inr (), c\<lparr>publicCalendarHome := Some ''/public-calendars/''\<rparr>, w)),
      principalPropertySearchByDisplayname = (\<lambda>c query w.
        (Inr (filter (prefix query) (directory w)), w)),
      findPrincipal = (\<lambda>c url w.
        (if url \<in> set (directory w) then Inr url else Inl (LibError ''not found''), w)),
      home_findAllCalendars = (\<lambda>h w. (Inr (map ((@) h) (published w)), w)),
      home_find = (\<lambda>h uri w.
        (if uri \<in> set (published w) \<or> (uri = ''contact_birthdays'' \<and> birthdays w)
         then Inr (h @ uri) else Inl (LibError ''not found''), w)),
      home_findAllScheduleInboxes = (\<lambda>h w. (Inr (map ((@) h) (scheduleInboxes w)), w)),
      home_findAllScheduleOutboxes = (\<lambda>h w. (Inr [h @ ''outbox/''], w)),
      home_createCalendarCollection = (\<lambda>h displayName color components order timezoneIcs w.
        (Inr (h @ displayName), w\<lparr>published := published w @ [displayName]\<rparr>)),
      home_createSubscribedCollection = (\<lambda>h displayName color source order w.
        (Inr (h @ displayName), w\<lparr>published := published w @ [displayName]\<rparr>)),
      home_enableBirthdayCalendar = (\<lambda>h w. (Inr (), w\<lparr>birthdays := True\<rparr>)),
      CALDAV_BIRTHDAY_CALENDAR = ''contact_birthdays''\<rparr>"

text \<open>The same server, except that it refuses to enable what is enabled already.\<close>

definition strict_library :: "(string, dav_server) library" where
  "strict_library =
     sample_library\<lparr>home_enableBirthdayCalendar := (\<lambda>h w.
        if birthdays w then (Inl (LibError ''already exists''), w)
        else (Inr (), w\<lparr>birthdays := True\<rparr>))\<rparr>"

definition sample_server :: dav_server where
  "sample_server =
     \<lparr>published = [''tokenA'', ''tokenB''], directory = [''alice'', ''bob''],
      scheduleInboxes = [], birthdays = False\<rparr>"

text \<open>The state of the module when it has just been loaded.\<close>

definition sample_initial :: "(string, dav_server) state" where
  "sample_initial =
     initial (\<lambda>a. \<lparr>calendarHomes = [], publicCalendarHome = None, currentUserPrincipal = None\<rparr>)
       sample_server"

text \<open>The sample module after each of the two initializers.\<close>

definition sample_public :: "(string, dav_server) state" where
  "sample_public = snd (initializeClientForPublicView sample_library sample_initial)"

definition sample_user :: "(string, dav_server) state" where
  "sample_user = snd (initializeClientForUserView sample_library sample_initial)"

definition strict_user :: "(string, dav_server) state" where
  "strict_user = snd (initializeClientForUserView strict_library sample_initial)"

section \<open>The session accessor\<close>

lemma getClient_Some: "client s = Some c \<Longrightarrow> getClient L s = (c, s)"
  by (subst getClient.simps) simp

lemma getClient_None:
  assumes "client s = None"
  shows "getClient L s =
     (constructions s,
      s\<lparr>client := Some (constructions s),
        heap := (heap s)
          (constructions s := DavClient_new L (generateRemoteUrl L ''dav'') xhrProvider),
        calls := calls s @ [New_DavClient (generateRemoteUrl L ''dav'') xhrProvider]\<rparr>)"
    (is "_ = (_, ?s')")
proof -
  have "getClient L s = (case client s of Some c \<Rightarrow> (c, s) | None \<Rightarrow> getClient L ?s')"
    by (rule getClient.simps)
  also have "\<dots> = getClient L ?s'"
    by (simp only: assms option.case)
  also have "\<dots> = (constructions s, ?s')"
    by (rule getClient_Some) simp
  finally show ?thesis .
qed

lemma getClient_eq:
  "getClient L s =
     (case client s of
        Some c \<Rightarrow> (c, s)
      | None \<Rightarrow>
          (constructions s,
           s\<lparr>client := Some (constructions s),
             heap := (heap s)
               (constructions s := DavClient_new L (generateRemoteUrl L ''dav'') xhrProvider),
             calls := calls s @ [New_DavClient (generateRemoteUrl L ''dav'') xhrProvider]\<rparr>))"
proof (cases "client s")
  case None
  then show ?thesis by (simp only: getClient_None option.case)
next
  case (Some c)
  then show ?thesis by (simp only: getClient_Some option.case)
qed

lemma getClient_calls:
  "calls (snd (getClient L s)) =
     calls s @ (if client s = None then [New_DavClient (generateRemoteUrl L ''dav'') xhrProvider] else [])"
  by (simp add: getClient_eq split: option.splits)

lemma getClient_client: "getClient L s = (c, s1) \<Longrightarrow> client s1 = Some c"
  by (auto simp: getClient_eq split: option.splits)

lemma getClient_again: "getClient L s = (c, s1) \<Longrightarrow> getClient L s1 = (c, s1)"
  by (auto simp: getClient_eq split: option.splits)

lemma getClient_server: "getClient L s = (c, s1) \<Longrightarrow> server s1 = server s"
  by (auto simp: getClient_eq split: option.splits)

lemma getClient_constructions:
  "getClient L s = (c, s1) \<Longrightarrow>
   constructions s1 = (if client s = None then Suc (constructions s) else constructions s)"
  by (auto simp: getClient_eq constructions_def split: option.splits)

lemma run_bound:
  "client s = Some c \<Longrightarrow>
   set (fst (run L steps s)) \<subseteq> {c} \<and> constructions (snd (run L steps s)) = constructions s"
proof (induction steps arbitrary: s)
  case Nil
  then show ?case by simp
next
  case (Cons st steps)
  show ?case
  proof (cases st)
    case GetClient
    with Cons.prems Cons.IH [of s] show ?thesis
      by (auto simp: getClient_Some split: prod.splits)
  next
    case (Elsewhere f)
    obtain h w where f: "f (heap s, server s) = (h, w)" by (cases "f (heap s, server s)")
    have "client (s\<lparr>heap := h, server := w\<rparr>) = Some c" using Cons.prems by simp
    from Cons.IH [OF this] Elsewhere f show ?thesis
      by (auto simp: constructions_def split: prod.splits)
  qed
qed

lemma run_fresh:
  "client s = None \<Longrightarrow>
   set (fst (run L steps s)) \<subseteq> {constructions s} \<and>
   constructions (snd (run L steps s)) \<le> Suc (constructions s)"
proof (induction steps arbitrary: s)
  case Nil
  then show ?case by simp
next
  case (Cons st steps)
  show ?case
  proof (cases st)
    case GetClient
    obtain s1 where g: "getClient L s = (constructions s, s1)"
      using Cons.prems by (simp add: getClient_None)
    have c1: "client s1 = Some (constructions s)" using g by (rule getClient_client)
    have n1: "constructions s1 = Suc (constructions s)"
      using getClient_constructions [OF g] Cons.prems by simp
    from run_bound [OF c1, of L steps] GetClient g n1 show ?thesis
      by (auto split: prod.splits)
  next
    case (Elsewhere f)
    obtain h w where f: "f (heap s, server s) = (h, w)" by (cases "f (heap s, server s)")
    have "client (s\<lparr>heap := h, server := w\<rparr>) = None" using Cons.prems by simp
    from Cons.IH [OF this] Elsewhere f show ?thesis
      by (auto simp: constructions_def split: prod.splits)
  qed
qed

text \<open>
  Claim C1. \<^verbatim>\<open>getClient\<close> is a lazy singleton. Its recursion terminates (the function is
  total: the recursive call finds the variable assigned). A call returns a reference that
  the variable holds from then on, a second call returns the same reference and changes
  nothing, and a call constructs at most one \<^verbatim>\<open>DavClient\<close>, none when the variable is set.
  In every run of the process, whatever runs between the calls, all calls of
  \<^verbatim>\<open>getClient\<close> return the same reference and the constructor runs at most once.
\<close>

theorem getClient_singleton:
  "(\<exists>c s1. getClient L s = (c, s1) \<and> client s1 = Some c \<and> getClient L s1 = (c, s1) \<and>
      constructions s1 \<le> Suc (constructions s) \<and> (client s \<noteq> None \<longrightarrow> s1 = s)) \<and>
   (\<forall>c \<in> set (fst (run L steps s)). \<forall>c' \<in> set (fst (run L steps s)). c = c') \<and>
   constructions (snd (run L steps s)) \<le> Suc (constructions s) \<and>
   constructions (snd (run L steps (initial h w))) \<le> 1"
proof -
  obtain c s1 where g: "getClient L s = (c, s1)" by (cases "getClient L s")
  have one: "\<exists>c s1. getClient L s = (c, s1) \<and> client s1 = Some c \<and> getClient L s1 = (c, s1) \<and>
      constructions s1 \<le> Suc (constructions s) \<and> (client s \<noteq> None \<longrightarrow> s1 = s)"
    using g getClient_client [OF g] getClient_again [OF g] getClient_constructions [OF g]
    by (auto simp: getClient_eq split: option.splits)
  have run: "\<exists>c. set (fst (run L steps t)) \<subseteq> {c} \<and>
      constructions (snd (run L steps t)) \<le> Suc (constructions t)" for t :: "('a, 'b) state"
  proof (cases "client t")
    case None
    from run_fresh [OF this, of L steps] show ?thesis by blast
  next
    case (Some a)
    from run_bound [OF this, of L steps] show ?thesis by auto
  qed
  have two: "\<forall>c \<in> set (fst (run L steps s)). \<forall>c' \<in> set (fst (run L steps s)). c = c'"
    using run [of s] by blast
  have three: "constructions (snd (run L steps s)) \<le> Suc (constructions s)"
    using run [of s] by blast
  have "constructions (initial h w) = 0" by (simp add: initial_def constructions_def)
  with run [of "initial h w"] have four: "constructions (snd (run L steps (initial h w))) \<le> 1"
    by auto
  from one two three four show ?thesis by blast
qed

theorem getClient_singleton_witness:
  "fst (run sample_library [GetClient, Elsewhere (\<lambda>x. x), GetClient] sample_initial) = [0, 0] \<and>
   0 \<in> set (fst (run sample_library [GetClient, Elsewhere (\<lambda>x. x), GetClient] sample_initial)) \<and>
   constructions
     (snd (run sample_library [GetClient, Elsewhere (\<lambda>x. x), GetClient] sample_initial)) = 1"
proof -
  let ?steps = "[GetClient, Elsewhere (\<lambda>x. x), GetClient]"
  have r: "fst (run sample_library ?steps sample_initial) = [0, 0]"
    by (simp add: getClient_eq sample_initial_def initial_def constructions_def)
  have lower: "1 \<le> constructions (snd (run sample_library ?steps sample_initial))"
    by (simp add: getClient_eq sample_initial_def initial_def constructions_def)
  have "constructions sample_initial = 0"
    by (simp add: sample_initial_def initial_def constructions_def)
  with getClient_singleton [of sample_library sample_initial ?steps]
  have upper: "constructions (snd (run sample_library ?steps sample_initial)) \<le> 1"
    by simp
  from r lower upper show ?thesis by simp
qed

section \<open>The header provider\<close>














lemma factories_append: "factories (cs @ ds) = factories cs @ factories ds"
  by (induction cs rule: factories.induct) simp_all




section \<open>Reading the session\<close>

lemma session_eq: "getClient L s = (c, s1) \<Longrightarrow> session L s = heap s1 c"
  by (simp add: session_def)

lemma session_Some: "client s = Some c \<Longrightarrow> session L s = heap s c"
  by (simp add: session_def getClient_Some)

lemma session_frame:
  assumes "client t = client (snd (getClient L s))" "heap t = heap (snd (getClient L s))"
  shows "session L t = session L s"
proof -
  obtain c s1 where g: "getClient L s = (c, s1)" by (cases "getClient L s")
  have "client t = Some c" using assms(1) g getClient_client [OF g] by simp
  then have "session L t = heap t c" by (rule session_Some)
  also have "\<dots> = heap s1 c" using assms(2) g by simp
  also have "\<dots> = session L s" using g by (simp add: session_def)
  finally show ?thesis .
qed

lemma onFirstHome_eq:
  "onFirstHome L tag m s =
     (case calendarHomes (session L s) of
        [] \<Rightarrow> (Inl TypeError, snd (getClient L s))
      | h # _ \<Rightarrow>
          (fst (m h (server s)),
           (snd (getClient L s))
             \<lparr>calls := calls (snd (getClient L s)) @ [tag h], server := snd (m h (server s))\<rparr>))"
proof -
  obtain c s1 where g: "getClient L s = (c, s1)" by (cases "getClient L s")
  from g getClient_server [OF g] show ?thesis
    by (simp add: onFirstHome_def session_def split: list.splits prod.splits)
qed

lemma onFirstHome_none:
  "calendarHomes (session L s) = [] \<Longrightarrow> fst (onFirstHome L tag m s) = Inl TypeError"
  by (simp add: onFirstHome_eq)

lemma onFirstHome_home:
  "calendarHomes (session L s) = h # hs \<Longrightarrow>
   fst (onFirstHome L tag m s) = fst (m h (server s)) \<and>
   server (snd (onFirstHome L tag m s)) = snd (m h (server s)) \<and>
   calls (snd (onFirstHome L tag m s)) = calls (snd (getClient L s)) @ [tag h] \<and>
   client (snd (onFirstHome L tag m s)) = client (snd (getClient L s)) \<and>
   heap (snd (onFirstHome L tag m s)) = heap (snd (getClient L s))"
  by (simp add: onFirstHome_eq)

lemma session_onFirstHome:
  "calendarHomes (session L s) = h # hs \<Longrightarrow> session L (snd (onFirstHome L tag m s)) = session L s"
  by (rule session_frame) (simp_all add: onFirstHome_home)

lemma getClient_snd_Some: "client s = Some c \<Longrightarrow> snd (getClient L s) = s"
  by (simp add: getClient_Some)

lemma getClient_after_onFirstHome:
  assumes "calendarHomes (session L s) = h # hs"
  shows "snd (getClient L (snd (onFirstHome L tag m s))) = snd (onFirstHome L tag m s)"
proof -
  obtain c s1 where g: "getClient L s = (c, s1)" by (cases "getClient L s")
  have "client (snd (onFirstHome L tag m s)) = Some c"
    using onFirstHome_home [OF assms, of tag m] g getClient_client [OF g] by simp
  then show ?thesis by (rule getClient_snd_Some)
qed

lemma enableBirthdayCalendar_eq:
  assumes "calendarHomes (session L s) = h # hs"
  shows "fst (enableBirthdayCalendar L s) = fst (enableThenFetch L h (server s))"
    and "server (snd (enableBirthdayCalendar L s)) = snd (enableThenFetch L h (server s))"
    and "calls (snd (enableBirthdayCalendar L s)) =
         calls (snd (getClient L s)) @
           (case fst (home_enableBirthdayCalendar L h (server s)) of
              Inl e \<Rightarrow> [EnableBirthdayCalendar h]
            | Inr _ \<Rightarrow> [EnableBirthdayCalendar h, Find h (CALDAV_BIRTHDAY_CALENDAR L)])"
    and "session L (snd (enableBirthdayCalendar L s)) = session L s"
    and "client (snd (enableBirthdayCalendar L s)) = client (snd (getClient L s))"
proof -
  let ?m = "home_enableBirthdayCalendar L"
  let ?s1 = "snd (onFirstHome L EnableBirthdayCalendar ?m s)"
  let ?tag = "\<lambda>h. Find h (CALDAV_BIRTHDAY_CALENDAR L)"
  let ?f = "\<lambda>h. home_find L h (CALDAV_BIRTHDAY_CALENDAR L)"
  note a = onFirstHome_home [OF assms, of EnableBirthdayCalendar ?m]
  have s1: "calendarHomes (session L ?s1) = h # hs"
    using session_onFirstHome [OF assms, of EnableBirthdayCalendar ?m] assms by simp
  note b = onFirstHome_home [OF s1, of ?tag ?f]
  note c = getClient_after_onFirstHome [OF assms, of EnableBirthdayCalendar ?m]
  have u: "enableBirthdayCalendar L s =
      (case fst (?m h (server s)) of
         Inl e \<Rightarrow> (Inl e, ?s1)
       | Inr _ \<Rightarrow> onFirstHome L ?tag ?f ?s1)"
    using a by (cases "onFirstHome L EnableBirthdayCalendar ?m s")
      (auto simp: enableBirthdayCalendar_def getBirthdayCalendar_def split: sum.splits)
  show "fst (enableBirthdayCalendar L s) = fst (enableThenFetch L h (server s))"
    using a b by (cases "?m h (server s)") (auto simp: u enableThenFetch_def split: sum.splits)
  show "server (snd (enableBirthdayCalendar L s)) = snd (enableThenFetch L h (server s))"
    using a b by (cases "?m h (server s)") (auto simp: u enableThenFetch_def split: sum.splits)
  show "calls (snd (enableBirthdayCalendar L s)) =
         calls (snd (getClient L s)) @
           (case fst (home_enableBirthdayCalendar L h (server s)) of
              Inl e \<Rightarrow> [EnableBirthdayCalendar h]
            | Inr _ \<Rightarrow> [EnableBirthdayCalendar h, Find h (CALDAV_BIRTHDAY_CALENDAR L)])"
    using a b c by (auto simp: u split: sum.splits)
  show "session L (snd (enableBirthdayCalendar L s)) = session L s"
  proof (cases "fst (?m h (server s))")
    case (Inl e)
    then show ?thesis using session_onFirstHome [OF assms, of EnableBirthdayCalendar ?m]
      by (simp add: u)
  next
    case (Inr x)
    then show ?thesis
      using session_onFirstHome [OF s1, of ?tag ?f]
        session_onFirstHome [OF assms, of EnableBirthdayCalendar ?m]
      by (simp add: u)
  qed
  show "client (snd (enableBirthdayCalendar L s)) = client (snd (getClient L s))"
    using a b c by (auto simp: u split: sum.splits)
qed

lemma sample_public_eval:
  "client sample_public = Some 0"
  "heap sample_public 0 =
     \<lparr>calendarHomes = [], publicCalendarHome = Some ''/public-calendars/'',
      currentUserPrincipal = None\<rparr>"
  "server sample_public = sample_server"
  "calls sample_public = [New_DavClient ''/remote.php/dav'' xhrProvider, CreatePublicCalendarHome 0]"
  by (simp_all add: sample_public_def initializeClientForPublicView_def getClient_eq
      sample_initial_def initial_def constructions_def sample_library_def)

lemma sample_user_eval:
  "client sample_user = Some 0"
  "heap sample_user 0 =
     \<lparr>calendarHomes = [''/calendars/alice/''], publicCalendarHome = None,
      currentUserPrincipal = Some ''/principals/users/alice/''\<rparr>"
  "server sample_user = sample_server"
  "calls sample_user = [New_DavClient ''/remote.php/dav'' xhrProvider, Connect 0 True]"
  by (simp_all add: sample_user_def initializeClientForUserView_def getClient_eq
      sample_initial_def initial_def constructions_def sample_library_def)

lemma sample_sessions:
  "session L sample_public =
     \<lparr>calendarHomes = [], publicCalendarHome = Some ''/public-calendars/'',
      currentUserPrincipal = None\<rparr>"
  "session L sample_user =
     \<lparr>calendarHomes = [''/calendars/alice/''], publicCalendarHome = None,
      currentUserPrincipal = Some ''/principals/users/alice/''\<rparr>"
  by (simp_all add: session_Some [of _ 0] sample_public_eval sample_user_eval)

lemma sample_find:
  "home_find sample_library h uri w =
     (if uri \<in> set (published w) \<or> (uri = ''contact_birthdays'' \<and> birthdays w)
      then Inr (h @ uri) else Inl (LibError ''not found''), w)"
  by (simp add: sample_library_def)

lemma strict_user_eval:
  "client strict_user = Some 0"
  "heap strict_user 0 =
     \<lparr>calendarHomes = [''/calendars/alice/''], publicCalendarHome = None,
      currentUserPrincipal = Some ''/principals/users/alice/''\<rparr>"
  "server strict_user = sample_server"
  by (simp_all add: strict_user_def initializeClientForUserView_def getClient_eq
      sample_initial_def initial_def constructions_def sample_library_def strict_library_def)

lemma strict_fetch:
  "enableThenFetch strict_library ''/calendars/alice/'' sample_server =
     (Inr ''/calendars/alice/contact_birthdays'', sample_server\<lparr>birthdays := True\<rparr>)"
  "enableThenFetch strict_library ''/calendars/alice/'' (sample_server\<lparr>birthdays := True\<rparr>) =
     (Inl (LibError ''already exists''), sample_server\<lparr>birthdays := True\<rparr>)"
  by (simp_all add: enableThenFetch_def strict_library_def sample_library_def sample_server_def)

lemma sample_fetch:
  "enableThenFetch sample_library ''/calendars/alice/'' sample_server =
     (Inr ''/calendars/alice/contact_birthdays'', sample_server\<lparr>birthdays := True\<rparr>)"
  "enableThenFetch sample_library ''/calendars/alice/'' (sample_server\<lparr>birthdays := True\<rparr>) =
     (Inr ''/calendars/alice/contact_birthdays'', sample_server\<lparr>birthdays := True\<rparr>)"
  by (simp_all add: enableThenFetch_def sample_library_def sample_server_def)

section \<open>Public calendars by token\<close>

lemma findLoop_public:
  "client s = Some c \<Longrightarrow> publicCalendarHome (heap s c) = Some h \<Longrightarrow>
   fst (findLoop L tokens acc s) =
     Inr (acc @ map catchNull (resolutions L h tokens (server s)))"
proof (induction tokens arbitrary: acc s)
  case Nil
  then show ?case by simp
next
  case (Cons token tokens)
  obtain r w where f: "home_find L h token (server s) = (r, w)"
    by (cases "home_find L h token (server s)")
  let ?s2 = "s\<lparr>calls := calls s @ [Find h token], server := w\<rparr>"
  have "client ?s2 = Some c" "publicCalendarHome (heap ?s2 c) = Some h"
    using Cons.prems by simp_all
  from Cons.IH [OF this, of "acc @ [catchNull r]"] Cons.prems f show ?case
    by (simp add: getClient_Some catchNull_def)
qed

lemma findLoop_session:
  assumes "publicCalendarHome (session L s) = Some h"
  shows "fst (findLoop L tokens acc s) =
     Inr (acc @ map catchNull (resolutions L h tokens (server s)))"
proof (cases tokens)
  case Nil
  then show ?thesis by simp
next
  case (Cons token tokens')
  obtain c s1 where g: "getClient L s = (c, s1)" by (cases "getClient L s")
  obtain r w where f: "home_find L h token (server s) = (r, w)"
    by (cases "home_find L h token (server s)")
  let ?s2 = "s1\<lparr>calls := calls s1 @ [Find h token], server := w\<rparr>"
  have p: "publicCalendarHome (heap s1 c) = Some h" using assms g by (simp add: session_def)
  have "client ?s2 = Some c" "publicCalendarHome (heap ?s2 c) = Some h"
    using getClient_client [OF g] p by simp_all
  from findLoop_public [OF this, of L tokens' "acc @ [catchNull r]"] Cons g f p
    getClient_server [OF g]
  show ?thesis by (simp add: catchNull_def)
qed

lemma findPublicCalendarsByTokens_eq:
  assumes "publicCalendarHome (session L s) = Some h"
  shows "fst (findPublicCalendarsByTokens L tokens s) =
     Inr (filter (\<lambda>calendar. calendar \<noteq> None)
       (map catchNull (resolutions L h tokens (server s))))"
  using findLoop_session [OF assms, of tokens "[]"]
  by (auto simp: findPublicCalendarsByTokens_def split: prod.splits sum.splits)

lemma length_resolutions: "length (resolutions L h tokens w) = length tokens"
  by (induction tokens arbitrary: w) (auto split: prod.splits)

lemma filter_catchNull:
  "filter (\<lambda>calendar. calendar \<noteq> None) (map catchNull rs) =
   map (\<lambda>r. Some (projr r)) (filter (\<lambda>r. \<not> isl r) rs)"
  by (induction rs) (auto simp: catchNull_def split: sum.splits)

text \<open>
  Claim C2. On a session that has a public calendar home, \<^verbatim>\<open>findPublicCalendarsByTokens\<close>
  never rejects. It returns at most as many entries as there are tokens: as many as the
  server accepted, and those entries are the calendars of the accepted tokens. The entries
  and the rejected tokens add up to the tokens, so \<open>N\<close> valid tokens and one invalid
  token give \<open>N\<close> entries.
\<close>

theorem findPublicCalendarsByTokens_tolerant:
  assumes "publicCalendarHome (session L s) = Some h"
  shows "\<exists>cs. fst (findPublicCalendarsByTokens L tokens s) = Inr cs \<and>
     length cs \<le> length tokens \<and>
     length cs = length (filter (\<lambda>r. \<not> isl r) (resolutions L h tokens (server s))) \<and>
     length cs + length (filter isl (resolutions L h tokens (server s))) = length tokens \<and>
     set cs = {Some calendar | calendar. Inr calendar \<in> set (resolutions L h tokens (server s))}"
proof -
  let ?rs = "resolutions L h tokens (server s)"
  let ?cs = "map (\<lambda>r. Some (projr r)) (filter (\<lambda>r. \<not> isl r) ?rs)"
  have r: "fst (findPublicCalendarsByTokens L tokens s) = Inr ?cs"
    using findPublicCalendarsByTokens_eq [OF assms, of tokens] unfolding filter_catchNull .
  have l: "length ?cs = length (filter (\<lambda>r. \<not> isl r) ?rs)" by simp
  have "length (filter (\<lambda>r. \<not> isl r) ?rs) + length (filter isl ?rs) = length ?rs"
    using sum_length_filter_compl [of isl ?rs] by simp
  then have t: "length ?cs + length (filter isl ?rs) = length tokens"
    by (simp add: length_resolutions)
  have st: "set ?cs = {Some calendar | calendar. Inr calendar \<in> set ?rs}"
  proof (intro set_eqI iffI)
    fix x assume "x \<in> set ?cs"
    then obtain r where "r \<in> set ?rs" "\<not> isl r" "x = Some (projr r)" by auto
    then show "x \<in> {Some calendar | calendar. Inr calendar \<in> set ?rs}"
      by (cases r) auto
  next
    fix x assume "x \<in> {Some calendar | calendar. Inr calendar \<in> set ?rs}"
    then obtain calendar where "x = Some calendar" "Inr calendar \<in> set ?rs" by blast
    then show "x \<in> set ?cs" by force
  qed
  have le: "length ?cs \<le> length tokens" using t by linarith
  from r le l t st show ?thesis by blast
qed

theorem findPublicCalendarsByTokens_tolerant_witness:
  "publicCalendarHome (session sample_library sample_public) = Some ''/public-calendars/'' \<and>
   (\<exists>cs. fst (findPublicCalendarsByTokens sample_library [''tokenA'', ''stale'', ''tokenB'']
              sample_public) = Inr cs \<and>
         length cs = 2 \<and>
         set cs = {Some ''/public-calendars/tokenA'', Some ''/public-calendars/tokenB''})"
proof -
  have h: "publicCalendarHome (session sample_library sample_public) = Some ''/public-calendars/''"
    by (simp add: sample_sessions)
  have rs: "resolutions sample_library ''/public-calendars/'' [''tokenA'', ''stale'', ''tokenB'']
      (server sample_public) =
      [Inr ''/public-calendars/tokenA'', Inl (LibError ''not found''),
       Inr ''/public-calendars/tokenB'']"
    by (simp add: sample_find sample_public_eval sample_server_def)
  from findPublicCalendarsByTokens_tolerant [OF h, of "[''tokenA'', ''stale'', ''tokenB'']"]
  obtain cs where
    "fst (findPublicCalendarsByTokens sample_library [''tokenA'', ''stale'', ''tokenB'']
       sample_public) = Inr cs"
    "length cs + length (filter isl (resolutions sample_library ''/public-calendars/''
       [''tokenA'', ''stale'', ''tokenB''] (server sample_public))) =
     length [''tokenA'', ''stale'', ''tokenB'']"
    "set cs = {Some calendar | calendar. Inr calendar \<in> set (resolutions sample_library
       ''/public-calendars/'' [''tokenA'', ''stale'', ''tokenB''] (server sample_public))}"
    by blast
  then have "fst (findPublicCalendarsByTokens sample_library [''tokenA'', ''stale'', ''tokenB'']
       sample_public) = Inr cs \<and> length cs = 2 \<and>
     set cs = {Some ''/public-calendars/tokenA'', Some ''/public-calendars/tokenB''}"
    unfolding rs by auto
  with h show ?thesis by blast
qed

text \<open>
  Claim C9. The result of \<^verbatim>\<open>findPublicCalendarsByTokens\<close> is the list of the answers to the
  tokens, in the order of the tokens, with the rejected ones left out: a function of the
  answers, and a subsequence of the answers after \<^verbatim>\<open>.catch(() => null)\<close>.
\<close>

theorem findPublicCalendarsByTokens_order:
  assumes "publicCalendarHome (session L s) = Some h"
  shows "fst (findPublicCalendarsByTokens L tokens s) =
       Inr (map (\<lambda>r. Some (projr r)) (filter (\<lambda>r. \<not> isl r) (resolutions L h tokens (server s)))) \<and>
     (\<forall>cs. fst (findPublicCalendarsByTokens L tokens s) = Inr cs \<longrightarrow>
        subseq cs (map catchNull (resolutions L h tokens (server s))))"
proof -
  let ?rs = "resolutions L h tokens (server s)"
  let ?fs = "filter (\<lambda>calendar. calendar \<noteq> None) (map catchNull ?rs)"
  have e: "fst (findPublicCalendarsByTokens L tokens s) = Inr ?fs"
    by (rule findPublicCalendarsByTokens_eq [OF assms])
  have one: "fst (findPublicCalendarsByTokens L tokens s) =
      Inr (map (\<lambda>r. Some (projr r)) (filter (\<lambda>r. \<not> isl r) ?rs))"
    using e unfolding filter_catchNull .
  have sub: "subseq ?fs (map catchNull ?rs)"
    by (rule subseq_filter_left)
  have two: "subseq cs (map catchNull ?rs)"
    if "fst (findPublicCalendarsByTokens L tokens s) = Inr cs" for cs
  proof -
    from that e have "cs = ?fs" by (simp only: sum.inject)
    with sub show ?thesis by (simp only:)
  qed
  from one two show ?thesis by blast
qed

theorem findPublicCalendarsByTokens_order_witness:
  "publicCalendarHome (session sample_library sample_public) = Some ''/public-calendars/'' \<and>
   fst (findPublicCalendarsByTokens sample_library [''tokenB'', ''stale'', ''tokenA'']
          sample_public) =
     Inr [Some ''/public-calendars/tokenB'', Some ''/public-calendars/tokenA''] \<and>
   subseq [Some ''/public-calendars/tokenB'', Some ''/public-calendars/tokenA'']
     [Some ''/public-calendars/tokenB'', None, Some ''/public-calendars/tokenA'']"
proof -
  have h: "publicCalendarHome (session sample_library sample_public) = Some ''/public-calendars/''"
    by (simp add: sample_sessions)
  have rs: "resolutions sample_library ''/public-calendars/'' [''tokenB'', ''stale'', ''tokenA'']
      (server sample_public) =
      [Inr ''/public-calendars/tokenB'', Inl (LibError ''not found''),
       Inr ''/public-calendars/tokenA'']"
    by (simp add: sample_find sample_public_eval sample_server_def)
  from findPublicCalendarsByTokens_order [OF h, of "[''tokenB'', ''stale'', ''tokenA'']"]
  show ?thesis unfolding rs using h by (simp add: catchNull_def)
qed

section \<open>Operations on the first calendar home\<close>

lemma sum_case_fst:
  "fst (case p of (Inl e, s') \<Rightarrow> (Inl e, s') | (Inr xs, s') \<Rightarrow> (Inr (f xs), s')) =
   (case fst p of Inl e \<Rightarrow> Inl e | Inr xs \<Rightarrow> Inr (f xs))"
  by (cases p) (auto split: sum.splits)

text \<open>
  Claim C5. With a first calendar home \<open>h\<close>, \<^verbatim>\<open>findSchedulingInbox\<close> asks \<open>h\<close> for all
  its scheduling inboxes (one call, logged) and returns the first of the list; when the
  list is empty it resolves with \<^verbatim>\<open>undefined\<close> (\<open>None\<close>), not with an error. A rejection
  of the query is passed on. \<^verbatim>\<open>findSchedulingOutbox\<close> does the same with the outboxes.
\<close>

theorem findSchedulingInbox_first:
  assumes "calendarHomes (session L s) = h # hs"
  shows "fst (findSchedulingInbox L s) =
       (case fst (home_findAllScheduleInboxes L h (server s)) of
          Inl e \<Rightarrow> Inl e
        | Inr inboxes \<Rightarrow> Inr (case inboxes of [] \<Rightarrow> None | inbox # _ \<Rightarrow> Some inbox)) \<and>
     (fst (home_findAllScheduleInboxes L h (server s)) = Inr [] \<longrightarrow>
        fst (findSchedulingInbox L s) = Inr None) \<and>
     calls (snd (findSchedulingInbox L s)) =
       calls (snd (getClient L s)) @ [FindAllScheduleInboxes h] \<and>
     fst (findSchedulingOutbox L s) =
       (case fst (home_findAllScheduleOutboxes L h (server s)) of
          Inl e \<Rightarrow> Inl e
        | Inr outboxes \<Rightarrow> Inr (case outboxes of [] \<Rightarrow> None | outbox # _ \<Rightarrow> Some outbox)) \<and>
     (fst (home_findAllScheduleOutboxes L h (server s)) = Inr [] \<longrightarrow>
        fst (findSchedulingOutbox L s) = Inr None) \<and>
     calls (snd (findSchedulingOutbox L s)) =
       calls (snd (getClient L s)) @ [FindAllScheduleOutboxes h]"
proof -
  note i = onFirstHome_home [OF assms, of FindAllScheduleInboxes "home_findAllScheduleInboxes L"]
  note out = onFirstHome_home [OF assms, of FindAllScheduleOutboxes "home_findAllScheduleOutboxes L"]
  have a: "fst (findSchedulingInbox L s) =
       (case fst (home_findAllScheduleInboxes L h (server s)) of
          Inl e \<Rightarrow> Inl e
        | Inr inboxes \<Rightarrow> Inr (case inboxes of [] \<Rightarrow> None | inbox # _ \<Rightarrow> Some inbox))"
    using i by (simp add: findSchedulingInbox_def sum_case_fst index0_def split: sum.splits)
  have b: "fst (findSchedulingOutbox L s) =
       (case fst (home_findAllScheduleOutboxes L h (server s)) of
          Inl e \<Rightarrow> Inl e
        | Inr outboxes \<Rightarrow> Inr (case outboxes of [] \<Rightarrow> None | outbox # _ \<Rightarrow> Some outbox))"
    using out by (simp add: findSchedulingOutbox_def sum_case_fst index0_def split: sum.splits)
  have c: "calls (snd (findSchedulingInbox L s)) =
       calls (snd (getClient L s)) @ [FindAllScheduleInboxes h]"
    using i by (cases "onFirstHome L FindAllScheduleInboxes (home_findAllScheduleInboxes L) s")
      (auto simp: findSchedulingInbox_def split: sum.splits)
  have d: "calls (snd (findSchedulingOutbox L s)) =
       calls (snd (getClient L s)) @ [FindAllScheduleOutboxes h]"
    using out by (cases "onFirstHome L FindAllScheduleOutboxes (home_findAllScheduleOutboxes L) s")
      (auto simp: findSchedulingOutbox_def split: sum.splits)
  from a b c d show ?thesis by simp
qed

theorem findSchedulingInbox_first_witness:
  "calendarHomes (session sample_library sample_user) = [''/calendars/alice/''] \<and>
   fst (home_findAllScheduleInboxes sample_library ''/calendars/alice/'' (server sample_user)) =
     Inr [] \<and>
   fst (findSchedulingInbox sample_library sample_user) = Inr None \<and>
   fst (findSchedulingOutbox sample_library sample_user) = Inr (Some ''/calendars/alice/outbox/'')"
proof -
  have h: "calendarHomes (session sample_library sample_user) = [''/calendars/alice/'']"
    by (simp add: sample_sessions)
  have e: "fst (home_findAllScheduleInboxes sample_library ''/calendars/alice/''
      (server sample_user)) = Inr []"
    by (simp add: sample_library_def sample_user_eval sample_server_def)
  have o: "fst (home_findAllScheduleOutboxes sample_library ''/calendars/alice/''
      (server sample_user)) = Inr [''/calendars/alice/outbox/'']"
    by (simp add: sample_library_def)
  from findSchedulingInbox_first [OF h] e o h show ?thesis by simp
qed

text \<open>
  Claim C10. The seven operations on the first calendar home index \<^verbatim>\<open>calendarHomes[0]\<close>
  without a guard. When the session has no calendar home, each of them fails with a
  TypeError (\<^verbatim>\<open>findAllCalendars\<close> throws it, the \<^verbatim>\<open>async\<close> ones reject with it); none
  returns an absent value. When the session has a first home \<open>h\<close>, the access succeeds
  and the outcome is the outcome of the library call on \<open>h\<close>.
\<close>

theorem home_scoped_operations:
  "(calendarHomes (session L s) = [] \<longrightarrow>
      fst (findAllCalendars L s) = Inl TypeError \<and>
      fst (findSchedulingInbox L s) = Inl TypeError \<and>
      fst (findSchedulingOutbox L s) = Inl TypeError \<and>
      fst (createCalendar L displayName color components order timezoneIcs s) = Inl TypeError \<and>
      fst (createSubscription L displayName color source order s) = Inl TypeError \<and>
      fst (enableBirthdayCalendar L s) = Inl TypeError \<and>
      fst (getBirthdayCalendar L s) = Inl TypeError) \<and>
   (\<forall>h hs. calendarHomes (session L s) = h # hs \<longrightarrow>
      fst (findAllCalendars L s) = fst (home_findAllCalendars L h (server s)) \<and>
      fst (findSchedulingInbox L s) =
        (case fst (home_findAllScheduleInboxes L h (server s)) of
           Inl e \<Rightarrow> Inl e | Inr inboxes \<Rightarrow> Inr (index0 inboxes)) \<and>
      fst (findSchedulingOutbox L s) =
        (case fst (home_findAllScheduleOutboxes L h (server s)) of
           Inl e \<Rightarrow> Inl e | Inr outboxes \<Rightarrow> Inr (index0 outboxes)) \<and>
      fst (createCalendar L displayName color components order timezoneIcs s) =
        fst (home_createCalendarCollection L h displayName color components order timezoneIcs
          (server s)) \<and>
      fst (createSubscription L displayName color source order s) =
        fst (home_createSubscribedCollection L h displayName color source order (server s)) \<and>
      fst (enableBirthdayCalendar L s) = fst (enableThenFetch L h (server s)) \<and>
      fst (getBirthdayCalendar L s) = fst (home_find L h (CALDAV_BIRTHDAY_CALENDAR L) (server s)))"
proof -
  have none: "fst (findAllCalendars L s) = Inl TypeError \<and>
      fst (findSchedulingInbox L s) = Inl TypeError \<and>
      fst (findSchedulingOutbox L s) = Inl TypeError \<and>
      fst (createCalendar L displayName color components order timezoneIcs s) = Inl TypeError \<and>
      fst (createSubscription L displayName color source order s) = Inl TypeError \<and>
      fst (enableBirthdayCalendar L s) = Inl TypeError \<and>
      fst (getBirthdayCalendar L s) = Inl TypeError"
    if e: "calendarHomes (session L s) = []"
  proof -
    have t: "onFirstHome L tag m s = (Inl TypeError, snd (getClient L s))"
      for tag and m :: "'a \<Rightarrow> 'b \<Rightarrow> (js_error + 'c) \<times> 'b"
      using e by (simp add: onFirstHome_eq)
    show ?thesis
      by (simp add: findAllCalendars_def findSchedulingInbox_def findSchedulingOutbox_def
          createCalendar_def createSubscription_def enableBirthdayCalendar_def
          getBirthdayCalendar_def t)
  qed
  have some: "fst (findAllCalendars L s) = fst (home_findAllCalendars L h (server s)) \<and>
      fst (findSchedulingInbox L s) =
        (case fst (home_findAllScheduleInboxes L h (server s)) of
           Inl e \<Rightarrow> Inl e | Inr inboxes \<Rightarrow> Inr (index0 inboxes)) \<and>
      fst (findSchedulingOutbox L s) =
        (case fst (home_findAllScheduleOutboxes L h (server s)) of
           Inl e \<Rightarrow> Inl e | Inr outboxes \<Rightarrow> Inr (index0 outboxes)) \<and>
      fst (createCalendar L displayName color components order timezoneIcs s) =
        fst (home_createCalendarCollection L h displayName color components order timezoneIcs
          (server s)) \<and>
      fst (createSubscription L displayName color source order s) =
        fst (home_createSubscribedCollection L h displayName color source order (server s)) \<and>
      fst (enableBirthdayCalendar L s) = fst (enableThenFetch L h (server s)) \<and>
      fst (getBirthdayCalendar L s) = fst (home_find L h (CALDAV_BIRTHDAY_CALENDAR L) (server s))"
    if e: "calendarHomes (session L s) = h # hs" for h hs
  proof -
    have t: "fst (onFirstHome L tag m s) = fst (m h (server s))"
      for tag and m :: "'a \<Rightarrow> 'b \<Rightarrow> (js_error + 'c) \<times> 'b"
      using onFirstHome_home [OF e, of tag m] by simp
    show ?thesis
      by (simp add: findAllCalendars_def findSchedulingInbox_def findSchedulingOutbox_def
          createCalendar_def createSubscription_def getBirthdayCalendar_def t sum_case_fst
          enableBirthdayCalendar_eq(1) [OF e])
  qed
  from none some show ?thesis by blast
qed

theorem home_scoped_operations_witness:
  "calendarHomes (session sample_library sample_initial) = [] \<and>
   fst (getBirthdayCalendar sample_library sample_initial) = Inl TypeError \<and>
   calendarHomes (session sample_library sample_public) = [] \<and>
   fst (findAllCalendars sample_library sample_public) = Inl TypeError \<and>
   fst (enableBirthdayCalendar sample_library sample_public) = Inl TypeError \<and>
   calendarHomes (session sample_library sample_user) = [''/calendars/alice/''] \<and>
   fst (findAllCalendars sample_library sample_user) =
     Inr [''/calendars/alice/tokenA'', ''/calendars/alice/tokenB''] \<and>
   fst (createCalendar sample_library ''Work'' ''#FF0000'' [''VEVENT''] 1 ''tz'' sample_user) =
     Inr ''/calendars/alice/Work''"
proof -
  have p: "calendarHomes (session sample_library sample_public) = []"
    by (simp add: sample_sessions)
  have u: "calendarHomes (session sample_library sample_user) = [''/calendars/alice/'']"
    by (simp add: sample_sessions)
  have a: "fst (home_findAllCalendars sample_library ''/calendars/alice/'' (server sample_user)) =
      Inr [''/calendars/alice/tokenA'', ''/calendars/alice/tokenB'']"
    by (simp add: sample_library_def sample_user_eval sample_server_def)
  have b: "fst (home_createCalendarCollection sample_library ''/calendars/alice/'' ''Work''
      ''#FF0000'' [''VEVENT''] 1 ''tz'' (server sample_user)) = Inr ''/calendars/alice/Work''"
    by (simp add: sample_library_def)
  have i: "calendarHomes (session sample_library sample_initial) = []"
    by (simp add: session_def getClient_eq sample_initial_def initial_def constructions_def
        sample_library_def)
  from home_scoped_operations [of sample_library sample_initial] i
  have "fst (getBirthdayCalendar sample_library sample_initial) = Inl TypeError"
    by blast
  moreover from home_scoped_operations [of sample_library sample_public] p
  have "fst (findAllCalendars sample_library sample_public) = Inl TypeError \<and>
      fst (enableBirthdayCalendar sample_library sample_public) = Inl TypeError"
    by blast
  moreover from home_scoped_operations [of sample_library sample_user "''Work''" "''#FF0000''"
      "[''VEVENT'']" 1 "''tz''"] u
  have "fst (findAllCalendars sample_library sample_user) =
      fst (home_findAllCalendars sample_library ''/calendars/alice/'' (server sample_user)) \<and>
    fst (createCalendar sample_library ''Work'' ''#FF0000'' [''VEVENT''] 1 ''tz'' sample_user) =
      fst (home_createCalendarCollection sample_library ''/calendars/alice/'' ''Work''
        ''#FF0000'' [''VEVENT''] 1 ''tz'' (server sample_user))"
    by blast
  ultimately show ?thesis using i p u a b by simp
qed

section \<open>The birthday calendar\<close>

text \<open>
  On a server that refuses to enable what is enabled, the second call in succession
  rejects with the server's error.
\<close>

theorem enableBirthdayCalendar_twice_counterexample:
  "fst (enableBirthdayCalendar strict_library strict_user) =
     Inr ''/calendars/alice/contact_birthdays'' \<and>
   fst (enableBirthdayCalendar strict_library
     (snd (enableBirthdayCalendar strict_library strict_user))) =
     Inl (LibError ''already exists'')"
proof -
  have h: "calendarHomes (session strict_library strict_user) = [''/calendars/alice/'']"
    by (simp add: session_Some [of _ 0] strict_user_eval)
  let ?s2 = "snd (enableBirthdayCalendar strict_library strict_user)"
  have h2: "calendarHomes (session strict_library ?s2) = [''/calendars/alice/'']"
    using enableBirthdayCalendar_eq(4) [OF h] h by simp
  have w2: "server ?s2 = sample_server\<lparr>birthdays := True\<rparr>"
    using enableBirthdayCalendar_eq(2) [OF h] by (simp add: strict_user_eval strict_fetch)
  from enableBirthdayCalendar_eq(1) [OF h] enableBirthdayCalendar_eq(1) [OF h2] w2
  show ?thesis by (simp add: strict_user_eval strict_fetch)
qed

text \<open>
  Claim C4, amended. With a first calendar home \<open>h\<close>, \<^verbatim>\<open>enableBirthdayCalendar\<close> is
  enable-then-fetch on \<open>h\<close>: it sends the enable request and, when that succeeds, looks
  up \<open>CALDAV_BIRTHDAY_CALENDAR\<close> on \<open>h\<close> through \<^verbatim>\<open>getBirthdayCalendar\<close>. A rejection of
  the enable request reaches the caller as it is, and no lookup is made. A second call in
  succession is enable-then-fetch again: the same requests, on the same home and with the
  same identifier, from the state of the server that the first call left. It returns
  what the first call returned whenever the server accepts both enable requests and
  answers the second lookup as it answered the first.
\<close>

theorem enableBirthdayCalendar_enable_then_fetch:
  assumes "calendarHomes (session L s) = h # hs"
  shows "fst (enableBirthdayCalendar L s) = fst (enableThenFetch L h (server s)) \<and>
     server (snd (enableBirthdayCalendar L s)) = snd (enableThenFetch L h (server s)) \<and>
     calls (snd (enableBirthdayCalendar L s)) =
       calls (snd (getClient L s)) @
         (case fst (home_enableBirthdayCalendar L h (server s)) of
            Inl e \<Rightarrow> [EnableBirthdayCalendar h]
          | Inr _ \<Rightarrow> [EnableBirthdayCalendar h, Find h (CALDAV_BIRTHDAY_CALENDAR L)]) \<and>
     (\<forall>e. fst (home_enableBirthdayCalendar L h (server s)) = Inl e \<longrightarrow>
        fst (enableBirthdayCalendar L s) = Inl e) \<and>
     fst (enableBirthdayCalendar L (snd (enableBirthdayCalendar L s))) =
       fst (enableThenFetch L h (snd (enableThenFetch L h (server s)))) \<and>
     calls (snd (enableBirthdayCalendar L (snd (enableBirthdayCalendar L s)))) =
       calls (snd (enableBirthdayCalendar L s)) @
         (case fst (home_enableBirthdayCalendar L h (snd (enableThenFetch L h (server s)))) of
            Inl e \<Rightarrow> [EnableBirthdayCalendar h]
          | Inr _ \<Rightarrow> [EnableBirthdayCalendar h, Find h (CALDAV_BIRTHDAY_CALENDAR L)]) \<and>
     (fst (home_enableBirthdayCalendar L h (server s)) = Inr () \<and>
      fst (home_enableBirthdayCalendar L h (snd (enableThenFetch L h (server s)))) = Inr () \<and>
      fst (home_find L h (CALDAV_BIRTHDAY_CALENDAR L)
        (snd (home_enableBirthdayCalendar L h (snd (enableThenFetch L h (server s)))))) =
      fst (home_find L h (CALDAV_BIRTHDAY_CALENDAR L)
        (snd (home_enableBirthdayCalendar L h (server s)))) \<longrightarrow>
      fst (enableBirthdayCalendar L (snd (enableBirthdayCalendar L s))) =
        fst (enableBirthdayCalendar L s))"
proof -
  let ?s2 = "snd (enableBirthdayCalendar L s)"
  let ?w1 = "snd (enableThenFetch L h (server s))"
  note e = enableBirthdayCalendar_eq [OF assms]
  have h2: "calendarHomes (session L ?s2) = h # hs" using e(4) assms by simp
  note e2 = enableBirthdayCalendar_eq [OF h2]
  have rej: "fst (enableBirthdayCalendar L s) = Inl x"
    if "fst (home_enableBirthdayCalendar L h (server s)) = Inl x" for x
    using that e(1) by (cases "home_enableBirthdayCalendar L h (server s)")
      (simp add: enableThenFetch_def)
  have again: "fst (enableBirthdayCalendar L ?s2) = fst (enableThenFetch L h ?w1)"
    using e2(1) e(2) by simp
  obtain c where "client (snd (getClient L s)) = Some c"
    using getClient_client [of L s] by (cases "getClient L s") simp
  then have "client ?s2 = Some c" using e(5) by simp
  then have "snd (getClient L ?s2) = ?s2" by (rule getClient_snd_Some)
  then have log: "calls (snd (enableBirthdayCalendar L ?s2)) =
       calls ?s2 @
         (case fst (home_enableBirthdayCalendar L h ?w1) of
            Inl e \<Rightarrow> [EnableBirthdayCalendar h]
          | Inr _ \<Rightarrow> [EnableBirthdayCalendar h, Find h (CALDAV_BIRTHDAY_CALENDAR L)])"
    using e2(3) e(2) by simp
  have same: "fst (enableBirthdayCalendar L ?s2) = fst (enableBirthdayCalendar L s)"
    if "fst (home_enableBirthdayCalendar L h (server s)) = Inr () \<and>
      fst (home_enableBirthdayCalendar L h ?w1) = Inr () \<and>
      fst (home_find L h (CALDAV_BIRTHDAY_CALENDAR L)
        (snd (home_enableBirthdayCalendar L h ?w1))) =
      fst (home_find L h (CALDAV_BIRTHDAY_CALENDAR L)
        (snd (home_enableBirthdayCalendar L h (server s))))"
  proof -
    have "fst (enableThenFetch L h (server s)) =
        fst (home_find L h (CALDAV_BIRTHDAY_CALENDAR L)
          (snd (home_enableBirthdayCalendar L h (server s))))"
      using that by (cases "home_enableBirthdayCalendar L h (server s)")
        (simp add: enableThenFetch_def)
    moreover have "fst (enableThenFetch L h ?w1) =
        fst (home_find L h (CALDAV_BIRTHDAY_CALENDAR L)
          (snd (home_enableBirthdayCalendar L h ?w1)))"
      using that by (cases "home_enableBirthdayCalendar L h ?w1")
        (simp add: enableThenFetch_def)
    ultimately show ?thesis using that again e(1) by simp
  qed
  from e(1) e(2) e(3) rej again log same show ?thesis by blast
qed

theorem enableBirthdayCalendar_enable_then_fetch_witness:
  "calendarHomes (session sample_library sample_user) = [''/calendars/alice/''] \<and>
   fst (home_enableBirthdayCalendar sample_library ''/calendars/alice/'' (server sample_user)) =
     Inr () \<and>
   fst (home_enableBirthdayCalendar sample_library ''/calendars/alice/''
     (snd (enableThenFetch sample_library ''/calendars/alice/'' (server sample_user)))) = Inr () \<and>
   fst (enableBirthdayCalendar sample_library sample_user) =
     Inr ''/calendars/alice/contact_birthdays'' \<and>
   fst (enableBirthdayCalendar sample_library
     (snd (enableBirthdayCalendar sample_library sample_user))) =
     fst (enableBirthdayCalendar sample_library sample_user) \<and>
   fst (home_enableBirthdayCalendar strict_library ''/calendars/alice/''
     (sample_server\<lparr>birthdays := True\<rparr>)) = Inl (LibError ''already exists'') \<and>
   fst (enableBirthdayCalendar strict_library
     (sample_user\<lparr>server := sample_server\<lparr>birthdays := True\<rparr>\<rparr>)) =
     Inl (LibError ''already exists'')"
proof -
  have h: "calendarHomes (session sample_library sample_user) = [''/calendars/alice/'']"
    by (simp add: sample_sessions)
  let ?t = "sample_user\<lparr>server := sample_server\<lparr>birthdays := True\<rparr>\<rparr>"
  have ht: "calendarHomes (session strict_library ?t) = [''/calendars/alice/'']"
    by (simp add: session_Some [of _ 0] sample_user_eval)
  have r: "fst (home_enableBirthdayCalendar strict_library ''/calendars/alice/''
     (sample_server\<lparr>birthdays := True\<rparr>)) = Inl (LibError ''already exists'')"
    by (simp add: strict_library_def sample_library_def)
  have a1: "fst (home_enableBirthdayCalendar sample_library ''/calendars/alice/''
      (server sample_user)) = Inr ()"
    by (simp add: sample_library_def)
  have a2: "fst (home_enableBirthdayCalendar sample_library ''/calendars/alice/''
      (snd (enableThenFetch sample_library ''/calendars/alice/'' (server sample_user)))) = Inr ()"
    by (simp add: sample_library_def)
  have a3: "fst (home_find sample_library ''/calendars/alice/''
        (CALDAV_BIRTHDAY_CALENDAR sample_library)
        (snd (home_enableBirthdayCalendar sample_library ''/calendars/alice/''
          (snd (enableThenFetch sample_library ''/calendars/alice/'' (server sample_user)))))) =
      fst (home_find sample_library ''/calendars/alice/''
        (CALDAV_BIRTHDAY_CALENDAR sample_library)
        (snd (home_enableBirthdayCalendar sample_library ''/calendars/alice/''
          (server sample_user))))"
    by (simp add: sample_user_eval sample_fetch) (simp add: sample_library_def)
  note t = enableBirthdayCalendar_enable_then_fetch [OF h]
  from t have first: "fst (enableBirthdayCalendar sample_library sample_user) =
      Inr ''/calendars/alice/contact_birthdays''"
    by (simp add: sample_user_eval sample_fetch)
  from t a1 a2 a3 have second: "fst (enableBirthdayCalendar sample_library
      (snd (enableBirthdayCalendar sample_library sample_user))) =
      fst (enableBirthdayCalendar sample_library sample_user)"
    by blast
  from enableBirthdayCalendar_enable_then_fetch [OF ht] r
  have third: "fst (enableBirthdayCalendar strict_library ?t) = Inl (LibError ''already exists'')"
    by (simp add: strict_fetch)
  from h a1 a2 first second r third show ?thesis by blast
qed

section \<open>The public view\<close>

lemma initializeClientForPublicView_eq:
  "fst (initializeClientForPublicView L s) =
     fst (createPublicCalendarHome L (session L s) (server s))"
  "client (snd (initializeClientForPublicView L s)) = Some (fst (getClient L s))"
  "heap (snd (initializeClientForPublicView L s)) =
     (heap (snd (getClient L s)))
       (fst (getClient L s) := fst (snd (createPublicCalendarHome L (session L s) (server s))))"
  "server (snd (initializeClientForPublicView L s)) =
     snd (snd (createPublicCalendarHome L (session L s) (server s)))"
  "calls (snd (initializeClientForPublicView L s)) =
     calls (snd (getClient L s)) @ [CreatePublicCalendarHome (fst (getClient L s))]"
proof -
  obtain c s1 where g: "getClient L s = (c, s1)" by (cases "getClient L s")
  obtain r obj w where p: "createPublicCalendarHome L (heap s1 c) (server s) = (r, obj, w)"
    by (cases "createPublicCalendarHome L (heap s1 c) (server s)")
  note f = g p getClient_server [OF g] getClient_client [OF g]
  show "fst (initializeClientForPublicView L s) =
     fst (createPublicCalendarHome L (session L s) (server s))"
    using f by (simp add: initializeClientForPublicView_def session_def)
  show "client (snd (initializeClientForPublicView L s)) = Some (fst (getClient L s))"
    using f by (simp add: initializeClientForPublicView_def session_def)
  show "heap (snd (initializeClientForPublicView L s)) =
     (heap (snd (getClient L s)))
       (fst (getClient L s) := fst (snd (createPublicCalendarHome L (session L s) (server s))))"
    using f by (simp add: initializeClientForPublicView_def session_def)
  show "server (snd (initializeClientForPublicView L s)) =
     snd (snd (createPublicCalendarHome L (session L s) (server s)))"
    using f by (simp add: initializeClientForPublicView_def session_def)
  show "calls (snd (initializeClientForPublicView L s)) =
     calls (snd (getClient L s)) @ [CreatePublicCalendarHome (fst (getClient L s))]"
    using f by (simp add: initializeClientForPublicView_def session_def)
qed

lemma session_public:
  "session L (snd (initializeClientForPublicView L s)) =
     fst (snd (createPublicCalendarHome L (session L s) (server s)))"
  using session_Some [OF initializeClientForPublicView_eq(2), of L L s]
  by (simp add: initializeClientForPublicView_eq(3))

text \<open>
  Claim C8. \<^verbatim>\<open>initializeClientForPublicView\<close> makes one library call on the session,
  \<^verbatim>\<open>_createPublicCalendarHome\<close>, after the construction of the client when there was
  none. Its outcome, the session and the server are what that call leaves; no other
  object changes; the log gains no \<^verbatim>\<open>connect\<close>, where \<^verbatim>\<open>initializeClientForUserView\<close>
  adds one. When the library's call keeps the calendar homes and the principal of its
  receiver, so does the initializer.
\<close>

theorem initializeClientForPublicView_frame:
  "fst (initializeClientForPublicView L s) =
     fst (createPublicCalendarHome L (session L s) (server s)) \<and>
   session L (snd (initializeClientForPublicView L s)) =
     fst (snd (createPublicCalendarHome L (session L s) (server s))) \<and>
   server (snd (initializeClientForPublicView L s)) =
     snd (snd (createPublicCalendarHome L (session L s) (server s))) \<and>
   client (snd (initializeClientForPublicView L s)) = Some (fst (getClient L s)) \<and>
   (\<forall>a. a \<noteq> fst (getClient L s) \<longrightarrow>
      heap (snd (initializeClientForPublicView L s)) a = heap (snd (getClient L s)) a) \<and>
   calls (snd (initializeClientForPublicView L s)) =
     calls s @ (if client s = None then [New_DavClient (generateRemoteUrl L ''dav'') xhrProvider] else [])
       @ [CreatePublicCalendarHome (fst (getClient L s))] \<and>
   filter is_Connect (calls (snd (initializeClientForPublicView L s))) =
     filter is_Connect (calls s) \<and>
   filter is_Connect (calls (snd (initializeClientForUserView L s))) =
     filter is_Connect (calls s) @ [Connect (fst (getClient L s)) True] \<and>
   ((\<forall>c w. calendarHomes (fst (snd (createPublicCalendarHome L c w))) = calendarHomes c \<and>
      currentUserPrincipal (fst (snd (createPublicCalendarHome L c w))) = currentUserPrincipal c) \<longrightarrow>
    calendarHomes (session L (snd (initializeClientForPublicView L s))) =
      calendarHomes (session L s) \<and>
    currentUserPrincipal (session L (snd (initializeClientForPublicView L s))) =
      currentUserPrincipal (session L s))"
proof -
  have user: "calls (snd (initializeClientForUserView L s)) =
      calls (snd (getClient L s)) @ [Connect (fst (getClient L s)) True]"
    by (cases "getClient L s")
      (simp add: initializeClientForUserView_def split: prod.splits)
  show ?thesis
    by (simp add: initializeClientForPublicView_eq session_public getClient_calls user)
qed

theorem initializeClientForPublicView_frame_witness:
  "(1::nat) \<noteq> fst (getClient sample_library sample_user) \<and>
   (\<forall>c w. calendarHomes (fst (snd (createPublicCalendarHome sample_library c w))) = calendarHomes c \<and>
      currentUserPrincipal (fst (snd (createPublicCalendarHome sample_library c w))) =
        currentUserPrincipal c) \<and>
   heap (snd (initializeClientForPublicView sample_library sample_user)) 1 = heap sample_user 1 \<and>
   calls (snd (initializeClientForPublicView sample_library sample_user)) =
     [New_DavClient ''/remote.php/dav'' xhrProvider, Connect 0 True, CreatePublicCalendarHome 0] \<and>
   session sample_library (snd (initializeClientForPublicView sample_library sample_user)) =
     \<lparr>calendarHomes = [''/calendars/alice/''],
      publicCalendarHome = Some ''/public-calendars/'',
      currentUserPrincipal = Some ''/principals/users/alice/''\<rparr>"
proof -
  have g: "getClient sample_library sample_user = (0, sample_user)"
    by (simp add: getClient_Some sample_user_eval)
  have l: "\<forall>c w. calendarHomes (fst (snd (createPublicCalendarHome sample_library c w))) =
      calendarHomes c \<and>
      currentUserPrincipal (fst (snd (createPublicCalendarHome sample_library c w))) =
        currentUserPrincipal c"
    by (simp add: sample_library_def)
  have p: "fst (snd (createPublicCalendarHome sample_library
      (session sample_library sample_user) (server sample_user))) =
     \<lparr>calendarHomes = [''/calendars/alice/''],
      publicCalendarHome = Some ''/public-calendars/'',
      currentUserPrincipal = Some ''/principals/users/alice/''\<rparr>"
    by (simp add: sample_sessions) (simp add: sample_library_def)
  from initializeClientForPublicView_frame [of sample_library sample_user] g l p
  show ?thesis by (simp add: sample_user_eval)
qed

section \<open>Principals\<close>

text \<open>
  After the public initializer on the sample server, the accessor returns \<^verbatim>\<open>null\<close>;
  it raises nothing.
\<close>

theorem getCurrentUserPrincipal_public_counterexample:
  "fst (getCurrentUserPrincipal sample_library
     (snd (initializeClientForPublicView sample_library sample_initial))) = Inr None"
  by (simp add: getCurrentUserPrincipal_def initializeClientForPublicView_def getClient_eq
      sample_initial_def initial_def constructions_def sample_library_def)

text \<open>
  Claim C3, amended. \<^verbatim>\<open>getCurrentUserPrincipal\<close> never raises, and beyond \<^verbatim>\<open>getClient\<close> it
  calls nothing: it returns the \<^verbatim>\<open>currentUserPrincipal\<close> property of the session. After
  \<^verbatim>\<open>initializeClientForPublicView\<close> that is the value which \<^verbatim>\<open>_createPublicCalendarHome\<close>
  left in the property.
\<close>

theorem getCurrentUserPrincipal_returns:
  "fst (getCurrentUserPrincipal L s) = Inr (currentUserPrincipal (session L s)) \<and>
   fst (getCurrentUserPrincipal L (snd (initializeClientForPublicView L s))) =
     Inr (currentUserPrincipal
       (fst (snd (createPublicCalendarHome L (session L s) (server s))))) \<and>
   calls (snd (getCurrentUserPrincipal L s)) = calls (snd (getClient L s))"
proof -
  have a: "fst (getCurrentUserPrincipal L t) = Inr (currentUserPrincipal (session L t))"
    for t :: "('a, 'b) state"
    by (cases "getClient L t") (simp add: getCurrentUserPrincipal_def session_def)
  have b: "calls (snd (getCurrentUserPrincipal L s)) = calls (snd (getClient L s))"
    by (cases "getClient L s") (simp add: getCurrentUserPrincipal_def)
  from a [of s] a [of "snd (initializeClientForPublicView L s)"] b show ?thesis
    by (simp add: session_public)
qed

text \<open>
  On the sample server the empty query is sent like any other, and it finds every
  principal.
\<close>

theorem findPrincipalsByDisplayName_empty_counterexample:
  "fst (findPrincipalsByDisplayName sample_library '''' sample_initial) = Inr [''alice'', ''bob''] \<and>
   calls (snd (findPrincipalsByDisplayName sample_library '''' sample_initial)) =
     [New_DavClient ''/remote.php/dav'' xhrProvider, PrincipalPropertySearchByDisplayname 0 '''']"
  by (simp add: findPrincipalsByDisplayName_def getClient_eq sample_initial_def initial_def
      constructions_def sample_library_def sample_server_def)

text \<open>
  Claim C6, amended. \<^verbatim>\<open>findPrincipalsByDisplayName\<close> passes every query, the empty
  string too, unchanged to \<^verbatim>\<open>principalPropertySearchByDisplayname\<close> of the session: one
  call, logged with the query, whose outcome is the outcome of the function.
\<close>

theorem findPrincipalsByDisplayName_passthrough:
  "fst (findPrincipalsByDisplayName L query s) =
     fst (principalPropertySearchByDisplayname L (session L s) query (server s)) \<and>
   server (snd (findPrincipalsByDisplayName L query s)) =
     snd (principalPropertySearchByDisplayname L (session L s) query (server s)) \<and>
   calls (snd (findPrincipalsByDisplayName L query s)) =
     calls (snd (getClient L s)) @
       [PrincipalPropertySearchByDisplayname (fst (getClient L s)) query]"
proof -
  obtain c s1 where g: "getClient L s = (c, s1)" by (cases "getClient L s")
  from g getClient_server [OF g] show ?thesis
    by (simp add: findPrincipalsByDisplayName_def session_def split: prod.splits)
qed

end
